theory Spec2Isabelle
  imports Complex_Main "HOL-Library.AList"
begin

section \<open>Python values used by the graph library\<close>

text \<open>
  The three source files (graph.py, digraph.py, graphs.py) are Python 3: the weights of
  \<^verbatim>\<open>add_rand_edge\<close> are quotients of integers that only make a distribution under
  true division. Hence \<^verbatim>\<open>/\<close> yields a float also in
  \<^verbatim>\<open>self.ne = sum(map(len, ...)) / 2\<close>.

  \<^item> An exception is a value of type \<open>error\<close>; a function that can raise returns
    \<open>error + 'a\<close> with \<open>Inl\<close> for the exception.
  \<^item> A \<^verbatim>\<open>dict\<close> whose iteration order is observed (\<^verbatim>\<open>ve_dict\<close>, the weight
    dictionary) is an association list in insertion order; a \<^verbatim>\<open>dict\<close> that is
    only indexed (\<^verbatim>\<open>degs\<close>, \<^verbatim>\<open>visited\<close>, \<^verbatim>\<open>pre_post\<close>) is a map.
  \<^item> A \<^verbatim>\<open>set\<close> is the list of its elements in iteration order. Python leaves that
    order unspecified; every theorem below about a traversal is proved for all lists,
    hence for every order, and results built by \<open>set_add\<close> are only read through
    \<open>set\<close>.
  \<^item> A float is the rational number it stands for. The halves and small integers the
    edge count takes are exact in binary floating point; the float operations of the
    weighted sampler, which round, are an argument of the model (\<open>float_ops\<close> below).
  \<^item> Sets are held by value: a graph owns the sets of its \<^verbatim>\<open>ve_dict\<close>. This is
    exact for every object the library creates itself (\<^verbatim>\<open>set()\<close> and
    \<^verbatim>\<open>set([...])\<close> are fresh objects); a caller who passes one set object under two
    keys of a seed dictionary is outside the model.
  \<^item> The recursive traversals take the number of nested calls the interpreter's
    recursion limit leaves them, and raise RecursionError beyond it.
\<close>

datatype error = KeyError | IndexError | NameError | UnboundLocalError | RecursionError

definition bind_err :: "error + 'a \<Rightarrow> ('a \<Rightarrow> error + 'b) \<Rightarrow> error + 'b" where
  "bind_err m f = (case m of Inl e \<Rightarrow> Inl e | Inr x \<Rightarrow> f x)"

text \<open>\<^verbatim>\<open>s.add(x)\<close> on a set.\<close>

definition set_add :: "'v \<Rightarrow> 'v list \<Rightarrow> 'v list" where
  "set_add x s = (if x \<in> set s then s else s @ [x])"

text \<open>\<^verbatim>\<open>dict(pairs)\<close>: a later pair with a known key overwrites the value in place, a
  new key is appended.\<close>

definition py_dict :: "('k \<times> 'a) list \<Rightarrow> ('k \<times> 'a) list" where
  "py_dict ps = foldl (\<lambda>d (k, a). AList.update k a d) [] ps"

text \<open>\<^verbatim>\<open>d.get(k, default)\<close>.\<close>

definition dict_get :: "('k \<times> 'a) list \<Rightarrow> 'k \<Rightarrow> 'a \<Rightarrow> 'a" where
  "dict_get d k dflt = (case map_of d k of None \<Rightarrow> dflt | Some a \<Rightarrow> a)"

text \<open>\<^verbatim>\<open>d[k]\<close> as an expression: KeyError on a missing key.\<close>

definition dict_item :: "('k \<times> 'a) list \<Rightarrow> 'k \<Rightarrow> error + 'a" where
  "dict_item d k = (case map_of d k of None \<Rightarrow> Inl KeyError | Some a \<Rightarrow> Inr a)"

definition map_item :: "('k \<rightharpoonup> 'a) \<Rightarrow> 'k \<Rightarrow> error + 'a" where
  "map_item m k = (case m k of None \<Rightarrow> Inl KeyError | Some a \<Rightarrow> Inr a)"

text \<open>\<^verbatim>\<open>d[v].add(w)\<close> on a dictionary of sets, and \<^verbatim>\<open>d[v] += 1\<close> on a dictionary of
  counters.\<close>

definition adj_add :: "('v \<times> 'v list) list \<Rightarrow> 'v \<Rightarrow> 'v \<Rightarrow> error + ('v \<times> 'v list) list" where
  "adj_add d v w = bind_err (dict_item d v) (\<lambda>s. Inr (AList.update v (set_add w s) d))"

definition incr :: "('v \<rightharpoonup> int) \<Rightarrow> 'v \<Rightarrow> error + ('v \<rightharpoonup> int)" where
  "incr m v = bind_err (map_item m v) (\<lambda>n. Inr (m(v \<mapsto> n + 1)))"

text \<open>The keys of a dictionary in iteration order, and the neighbours a dictionary of
  sets records for a vertex (none for a missing key; used in statements only).\<close>

definition keys :: "('k \<times> 'a) list \<Rightarrow> 'k list" where
  "keys d = map fst d"

definition nbrs :: "('v \<times> 'v list) list \<Rightarrow> 'v \<Rightarrow> 'v list" where
  "nbrs d v = dict_get d v []"

section \<open>The classes graph and digraph\<close>

record 'v graph =
  ve_dict :: "('v \<times> 'v list) list"
  degs :: "'v \<rightharpoonup> int"
  nv :: int
  ne :: rat

record 'v digraph =
  ve_dict :: "('v \<times> 'v list) list"
  out_deg :: "'v \<rightharpoonup> int"
  nv :: int
  ne :: int

text \<open>
  \<^verbatim>\<open>__init__(self, verts, edge_dict = {})\<close>. The argument \<^verbatim>\<open>verts\<close> is used twice by
  iteration and once by \<^verbatim>\<open>len\<close>; \<open>graph_init_seq\<close> takes the iteration and the length
  apart, because \<^verbatim>\<open>graph(G)\<close> in \<^verbatim>\<open>spanning_forest\<close> passes a graph, whose iteration
  gives the keys of \<^verbatim>\<open>G.ve_dict\<close> and whose \<^verbatim>\<open>len\<close> is \<^verbatim>\<open>G.nv\<close>.
\<close>

definition graph_init_seq :: "'v list \<Rightarrow> int \<Rightarrow> ('v \<times> 'v list) list \<Rightarrow> 'v graph" where
  "graph_init_seq verts len edge_dict =
     (let ve = py_dict (map (\<lambda>v. (v, dict_get edge_dict v [])) verts)
      in \<lparr>graph.ve_dict = ve,
          degs = map_of (map (\<lambda>v. (v, 0)) verts),
          nv = len,
          ne = of_int (sum_list (map (\<lambda>(v, s). int (length s)) ve)) / 2\<rparr>)"

definition graph_init :: "'v list \<Rightarrow> ('v \<times> 'v list) list \<Rightarrow> 'v graph" where
  "graph_init verts edge_dict = graph_init_seq verts (int (length verts)) edge_dict"

definition digraph_init :: "'v list \<Rightarrow> ('v \<times> 'v list) list \<Rightarrow> 'v digraph" where
  "digraph_init verts edge_dict =
     (let ve = py_dict (map (\<lambda>v. (v, dict_get edge_dict v [])) verts)
      in \<lparr>digraph.ve_dict = ve,
          out_deg = map_of (map (\<lambda>v. (v, 0)) verts),
          nv = int (length verts),
          ne = sum_list (map (\<lambda>(v, s). int (length s)) ve)\<rparr>)"

text \<open>
  \<^verbatim>\<open>graph.add_edge(self, i, j)\<close>: the result is the returned boolean and the graph
  after the call. The statements of the success branch run in the order of the source.
\<close>

definition graph_add_edge :: "'v graph \<Rightarrow> 'v \<Rightarrow> 'v \<Rightarrow> error + (bool \<times> 'v graph)" where
  "graph_add_edge G i j =
     (if i \<in> set (keys (graph.ve_dict G)) \<and> j \<in> set (keys (graph.ve_dict G)) then
        if i = j then Inr (False, G)
        else bind_err (dict_item (graph.ve_dict G) j) (\<lambda>sj.
          if i \<notin> set sj then
            bind_err (incr (degs G) i) (\<lambda>d1.
            bind_err (incr d1 j) (\<lambda>d2.
            bind_err (adj_add (graph.ve_dict G) i j) (\<lambda>ve1.
            bind_err (adj_add ve1 j i) (\<lambda>ve2.
              Inr (True, G\<lparr>graph.ve_dict := ve2, degs := d2, graph.ne := graph.ne G + 1\<rparr>)))))
          else Inr (False, G))
      else Inr (False, G))"

text \<open>\<^verbatim>\<open>digraph.add_edge(self, v, w)\<close>.\<close>

definition digraph_add_edge :: "'v digraph \<Rightarrow> 'v \<Rightarrow> 'v \<Rightarrow> error + (bool \<times> 'v digraph)" where
  "digraph_add_edge G v w =
     (if v \<in> set (keys (digraph.ve_dict G)) \<and> w \<in> set (keys (digraph.ve_dict G)) then
        if v = w then Inr (False, G)
        else bind_err (dict_item (digraph.ve_dict G) v) (\<lambda>sv.
          if w \<notin> set sv then
            bind_err (incr (out_deg G) v) (\<lambda>d1.
            bind_err (adj_add (digraph.ve_dict G) v w) (\<lambda>ve1.
              Inr (True, G\<lparr>digraph.ve_dict := ve1, out_deg := d1, digraph.ne := digraph.ne G + 1\<rparr>)))
          else Inr (False, G))
      else Inr (False, G))"

section \<open>Specification vocabulary: degree sums\<close>

text \<open>The sum of the counters of a degree dictionary over a list of vertices, and the
  bookkeeping invariant of claim C2: distinct keys, one counter per key, and \<^verbatim>\<open>ne\<close>
  equal to half the degree sum (the out-degree sum for a digraph).\<close>

definition degree_sum :: "('v \<rightharpoonup> int) \<Rightarrow> 'v list \<Rightarrow> int" where
  "degree_sum m ks = sum_list (map (\<lambda>v. case m v of None \<Rightarrow> 0 | Some d \<Rightarrow> d) ks)"

definition graph_counted :: "'v graph \<Rightarrow> bool" where
  "graph_counted G \<longleftrightarrow>
     distinct (keys (graph.ve_dict G)) \<and> dom (degs G) = set (keys (graph.ve_dict G)) \<and>
     graph.ne G = of_int (degree_sum (degs G) (keys (graph.ve_dict G))) / 2"

definition digraph_counted :: "'v digraph \<Rightarrow> bool" where
  "digraph_counted D \<longleftrightarrow>
     distinct (keys (digraph.ve_dict D)) \<and> dom (out_deg D) = set (keys (digraph.ve_dict D)) \<and>
     digraph.ne D = degree_sum (out_deg D) (keys (digraph.ve_dict D))"

section \<open>Induced subgraphs\<close>

text \<open>A list comprehension whose element expression can raise: the first exception ends
  it. \<^verbatim>\<open>set(xs)\<close> of a list keeps one copy of each element.\<close>

fun map_err :: "('a \<Rightarrow> error + 'b) \<Rightarrow> 'a list \<Rightarrow> error + 'b list" where
  "map_err f [] = Inr []"
| "map_err f (x # xs) = bind_err (f x) (\<lambda>y. bind_err (map_err f xs) (\<lambda>ys. Inr (y # ys)))"

definition py_set :: "'v list \<Rightarrow> 'v list" where
  "py_set xs = remdups xs"

text \<open>
  \<^verbatim>\<open>subgraph(self, some_verts)\<close>, in both classes:
  \<^verbatim>\<open>
    some_edges = dict([(v, set([e for e in self.ve_dict[v] if e in some_verts]))
                       for v in some_verts])
    return graph(some_verts, some_edges)
  \<close>
\<close>

definition some_edges :: "('v \<times> 'v list) list \<Rightarrow> 'v list \<Rightarrow> error + ('v \<times> 'v list) list" where
  "some_edges ve some_verts =
     bind_err (map_err (\<lambda>v. bind_err (dict_item ve v)
                 (\<lambda>s. Inr (v, py_set (filter (\<lambda>e. e \<in> set some_verts) s)))) some_verts)
       (\<lambda>pairs. Inr (py_dict pairs))"

definition graph_subgraph :: "'v graph \<Rightarrow> 'v list \<Rightarrow> error + 'v graph" where
  "graph_subgraph G some_verts =
     bind_err (some_edges (graph.ve_dict G) some_verts) (\<lambda>es. Inr (graph_init some_verts es))"

text \<open>digraph.py defines and imports no name \<^verbatim>\<open>graph\<close> (its imports are numpy and
  random, its class is \<^verbatim>\<open>digraph\<close>): the last line of \<^verbatim>\<open>digraph.subgraph\<close> raises
  NameError once \<^verbatim>\<open>some_edges\<close> has been built.\<close>

definition digraph_subgraph :: "'v digraph \<Rightarrow> 'v list \<Rightarrow> error + 'v graph" where
  "digraph_subgraph D some_verts =
     bind_err (some_edges (digraph.ve_dict D) some_verts) (\<lambda>es. Inl NameError)"

section \<open>Random edges\<close>

text \<open>
  The two random draws are arguments: \<open>cutoff\<close> is the value of \<^verbatim>\<open>random.random()\<close>, a
  float in \<open>[0, 1)\<close>, and \<open>pick\<close> decides \<^verbatim>\<open>random.choice\<close>, which raises IndexError on
  an empty sequence and can return each element of a non-empty one. Printed lines are
  returned as a list of strings. A Python value that is \<^verbatim>\<open>None\<close>, \<^verbatim>\<open>False\<close> or a
  vertex label is a \<open>pyval\<close>.

  The weights and the running threshold of the sampler are floats, and the interpreter
  rounds the result of every operation on them. A finite float is the rational number it
  denotes, so the comparisons \<^verbatim>\<open>>=\<close> and \<^verbatim>\<open>!= 1\<close> are comparisons of rationals. The
  operations that round are not defined by the three files; they are an argument \<open>fl\<close>
  of the sampler and of \<^verbatim>\<open>add_rand_edge\<close>: \<open>float_add fl x y\<close> is the float
  \<^verbatim>\<open>x + y\<close>, \<open>float_div fl x y\<close> the float \<^verbatim>\<open>x / y\<close> for \<open>y \<noteq> 0\<close>, and
  \<open>float_sum fl xs\<close> the float \<^verbatim>\<open>sum(xs)\<close>. Nothing is assumed of them: a theorem with
  a variable \<open>fl\<close> holds for every rounding, every precision and every way \<^verbatim>\<open>sum\<close> adds
  up its argument. Infinities and NaN are outside the model.
\<close>

record float_ops =
  float_add :: "rat \<Rightarrow> rat \<Rightarrow> rat"
  float_div :: "rat \<Rightarrow> rat \<Rightarrow> rat"
  float_sum :: "rat list \<Rightarrow> rat"

text \<open>
  The operations without rounding. Binary floating point agrees with them whenever the
  operands and the exact result are floats; the closed examples below use them on the
  values 0, 1/4, 1/2, 3/4, 1, 2 and \<open>1 - 2\<^sup>-\<^sup>4\<^sup>0\<close> only, all of them binary fractions
  of at most 40 bits.
\<close>

definition exact_ops :: float_ops where
  "exact_ops = \<lparr>float_add = (\<lambda>x y. x + y), float_div = (\<lambda>x y. x / y), float_sum = sum_list\<rparr>"

datatype 'v pyval = PyNone | PyFalse | Key 'v

definition random_choice :: "'a list \<Rightarrow> nat \<Rightarrow> error + 'a" where
  "random_choice xs pick = (if xs = [] then Inl IndexError else Inr (xs ! (pick mod length xs)))"

text \<open>
  The loop of \<^verbatim>\<open>weighted_choice\<close>; the last argument is the loop variable
  \<^verbatim>\<open>choice\<close>, unbound before the first iteration. The sum \<^verbatim>\<open>threshold + weight\<close> is a
  float addition, in the test and in the update (the first one adds the integer 0):
  \<^verbatim>\<open>
    threshold = 0
    for choice in weight_dict:
        if threshold + weight_dict[choice] >= cutoff:
            break
        threshold += weight_dict[choice]
    return choice
  \<close>
\<close>

fun choice_loop ::
  "float_ops \<Rightarrow> ('k \<times> rat) list \<Rightarrow> rat \<Rightarrow> rat \<Rightarrow> 'k option \<Rightarrow> 'k option" where
  "choice_loop fl [] cutoff threshold choice = choice"
| "choice_loop fl ((k, w) # rest) cutoff threshold choice =
     (if float_add fl threshold w \<ge> cutoff then Some k
      else choice_loop fl rest cutoff (float_add fl threshold w) (Some k))"

text \<open>\<^verbatim>\<open>weighted_choice\<close> of graph.py and graphs.py: the sum \<^verbatim>\<open>w\<close> is computed and
  never used.\<close>

definition graph_weighted_choice ::
  "float_ops \<Rightarrow> ('k \<times> rat) list \<Rightarrow> rat \<Rightarrow> error + 'k" where
  "graph_weighted_choice fl weight_dict cutoff =
     (case choice_loop fl weight_dict cutoff 0 None of
        None \<Rightarrow> Inl UnboundLocalError
      | Some k \<Rightarrow> Inr k)"

text \<open>\<^verbatim>\<open>weighted_choice\<close> of digraph.py: it prints and returns \<^verbatim>\<open>False\<close> unless the
  float \<^verbatim>\<open>sum(weight_dict.values())\<close> is 1.\<close>

definition digraph_weighted_choice ::
  "float_ops \<Rightarrow> ('k \<times> rat) list \<Rightarrow> rat \<Rightarrow> error + (string list \<times> 'k pyval)" where
  "digraph_weighted_choice fl weight_dict cutoff =
     (if float_sum fl (map snd weight_dict) \<noteq> 1
      then Inr ([''error: dict_values should sum to 1.''], PyFalse)
      else (case choice_loop fl weight_dict cutoff 0 None of
              None \<Rightarrow> Inl UnboundLocalError
            | Some k \<Rightarrow> Inr ([], Key k)))"

text \<open>
  \<^verbatim>\<open>graph.add_rand_edge(self)\<close>. The method has no \<^verbatim>\<open>return\<close>: it returns \<^verbatim>\<open>None\<close>
  on both branches. The result is the printed lines, the returned value and the graph
  after the call. The weight of a vertex is the float quotient of an integer by
  \<^verbatim>\<open>norm\<close>.
\<close>

definition graph_add_rand_edge ::
  "float_ops \<Rightarrow> 'v graph \<Rightarrow> rat \<Rightarrow> nat \<Rightarrow> error + (string list \<times> 'v pyval \<times> 'v graph)" where
  "graph_add_rand_edge fl G cutoff pick =
     (let norm = of_int (graph.nv G * (graph.nv G - 1)) - 2 * graph.ne G in
      if norm \<noteq> 0 then
        bind_err (map_err (\<lambda>v. bind_err (map_item (degs G) v)
                    (\<lambda>d. Inr (v, float_div fl (of_int (graph.nv G - d - 1)) norm)))
                  (keys (graph.ve_dict G))) (\<lambda>pairs.
        bind_err (graph_weighted_choice fl (py_dict pairs) cutoff) (\<lambda>v.
        bind_err (map_err (\<lambda>e. if e \<noteq> v
                                then bind_err (dict_item (graph.ve_dict G) v)
                                       (\<lambda>s. Inr (e, e \<notin> set s))
                                else Inr (e, False))
                  (keys (graph.ve_dict G))) (\<lambda>marked.
        bind_err (random_choice (map fst (filter snd marked)) pick) (\<lambda>w.
        bind_err (adj_add (graph.ve_dict G) v w) (\<lambda>ve1.
        bind_err (adj_add ve1 w v) (\<lambda>ve2.
        bind_err (incr (degs G) v) (\<lambda>d1.
        bind_err (incr d1 w) (\<lambda>d2.
          Inr ([], PyNone,
               G\<lparr>graph.ve_dict := ve2, graph.ne := graph.ne G + 1, degs := d2\<rparr>)))))))))
      else Inr ([''error: graph complete, no more edges to add''], PyNone, G))"

text \<open>
  \<^verbatim>\<open>digraph.add_rand_edge(self)\<close>. When \<^verbatim>\<open>weighted_choice\<close> returns \<^verbatim>\<open>False\<close> the
  method goes on with \<^verbatim>\<open>v = False\<close>; Python's \<^verbatim>\<open>False\<close> equals and hashes like the
  labels \<^verbatim>\<open>0\<close> and \<^verbatim>\<open>0.0\<close>, so \<open>false_key\<close> is the label of the vertex type that
  \<^verbatim>\<open>False\<close> stands for as a dictionary key, if it has one.
\<close>

definition as_key :: "'v option \<Rightarrow> 'v pyval \<Rightarrow> 'v option" where
  "as_key false_key c = (case c of Key k \<Rightarrow> Some k | PyFalse \<Rightarrow> false_key | PyNone \<Rightarrow> None)"

definition digraph_add_rand_edge ::
  "float_ops \<Rightarrow> 'v option \<Rightarrow> 'v digraph \<Rightarrow> rat \<Rightarrow> nat
     \<Rightarrow> error + (string list \<times> 'v pyval \<times> 'v digraph)" where
  "digraph_add_rand_edge fl false_key D cutoff pick =
     (let norm = digraph.nv D * (digraph.nv D - 1) - digraph.ne D in
      if norm \<noteq> 0 then
        bind_err (map_err (\<lambda>i. bind_err (map_item (out_deg D) i)
                    (\<lambda>d. Inr (i, float_div fl (of_int (digraph.nv D - d - 1)) (of_int norm))))
                  (keys (digraph.ve_dict D))) (\<lambda>pairs.
        bind_err (digraph_weighted_choice fl (py_dict pairs) cutoff) (\<lambda>(out, c).
        bind_err (map_err (\<lambda>e. if Some e \<noteq> as_key false_key c
                                then (case as_key false_key c of
                                        None \<Rightarrow> Inl KeyError
                                      | Some v \<Rightarrow> bind_err (dict_item (digraph.ve_dict D) v)
                                                   (\<lambda>s. Inr (e, e \<notin> set s)))
                                else Inr (e, False))
                  (keys (digraph.ve_dict D))) (\<lambda>marked.
        bind_err (random_choice (map fst (filter snd marked)) pick) (\<lambda>w.
          (case as_key false_key c of
             None \<Rightarrow> Inr (out, PyNone, D)
           | Some v \<Rightarrow> bind_err (digraph_add_edge D v w) (\<lambda>(b, D'). Inr (out, PyNone, D')))))))
      else Inr ([''error: graph complete, no more edges to add''], PyNone, D))"

text \<open>Vocabulary of claim C7: the inclusive cumulative weight of the \<open>i\<close>-th key in
  iteration order, the weights added one after the other in floating point from 0; the
  first key whose cumulative weight reaches the draw; and the case that no key does.\<close>

definition cumulative :: "float_ops \<Rightarrow> ('k \<times> rat) list \<Rightarrow> nat \<Rightarrow> rat" where
  "cumulative fl wd i = foldl (float_add fl) 0 (map snd (take (Suc i) wd))"

definition first_reaching :: "float_ops \<Rightarrow> ('k \<times> rat) list \<Rightarrow> rat \<Rightarrow> nat \<Rightarrow> bool" where
  "first_reaching fl wd cutoff i \<longleftrightarrow>
     i < length wd \<and> cumulative fl wd i \<ge> cutoff \<and> (\<forall>j < i. cumulative fl wd j < cutoff)"

definition none_reaching :: "float_ops \<Rightarrow> ('k \<times> rat) list \<Rightarrow> rat \<Rightarrow> bool" where
  "none_reaching fl wd cutoff \<longleftrightarrow> (\<forall>j < length wd. cumulative fl wd j < cutoff)"

text \<open>\<^verbatim>\<open>is_complete(self)\<close> of the two classes.\<close>

definition graph_is_complete :: "'v graph \<Rightarrow> bool" where
  "graph_is_complete G \<longleftrightarrow> graph.ne G = of_int (graph.nv G * (graph.nv G - 1)) / 2"

definition digraph_is_complete :: "'v digraph \<Rightarrow> bool" where
  "digraph_is_complete D \<longleftrightarrow> digraph.ne D = digraph.nv D * (digraph.nv D - 1)"

text \<open>A sequence of \<^verbatim>\<open>add_edge\<close> calls on one graph, the booleans dropped.\<close>

fun graph_add_edges :: "'v graph \<Rightarrow> ('v \<times> 'v) list \<Rightarrow> error + 'v graph" where
  "graph_add_edges G [] = Inr G"
| "graph_add_edges G ((v, w) # es) =
     bind_err (graph_add_edge G v w) (\<lambda>(b, G'). graph_add_edges G' es)"

text \<open>What a call of \<^verbatim>\<open>add_rand_edge\<close> printed and returned, and the object after it (the
  object before it when the call raised).\<close>

definition printed :: "error + (string list \<times> 'r \<times> 'g) \<Rightarrow> string list" where
  "printed r = (case r of Inl e \<Rightarrow> [] | Inr (out, v, g) \<Rightarrow> out)"

definition returned :: "error + (string list \<times> 'r \<times> 'g) \<Rightarrow> 'r option" where
  "returned r = (case r of Inl e \<Rightarrow> None | Inr (out, v, g) \<Rightarrow> Some v)"

definition object_after :: "'g \<Rightarrow> error + (string list \<times> 'r \<times> 'g) \<Rightarrow> 'g" where
  "object_after g0 r = (case r of Inl e \<Rightarrow> g0 | Inr (out, v, g) \<Rightarrow> g)"

section \<open>Depth-first search\<close>









text \<open>
  The path \<open>0 - 1 - ... - (n - 1)\<close> as an adjacency dictionary, as \<^verbatim>\<open>graph(range(n))\<close>
  followed by \<^verbatim>\<open>add_edge(i, i + 1)\<close> for every \<open>i < n - 1\<close> builds it, and the graph
  object with that dictionary.
\<close>

definition path_nbrs :: "nat \<Rightarrow> nat \<Rightarrow> nat list" where
  "path_nbrs n i = (if i = 0 then [] else [i - 1]) @ (if Suc i < n then [Suc i] else [])"

definition path_ve :: "nat \<Rightarrow> (nat \<times> nat list) list" where
  "path_ve n = map (\<lambda>i. (i, path_nbrs n i)) [0 ..< n]"

definition path_graph :: "nat \<Rightarrow> nat graph" where
  "path_graph n = \<lparr>graph.ve_dict = path_ve n,
                   degs = (\<lambda>i. if i < n then Some (int (length (path_nbrs n i))) else None),
                   nv = int n, ne = of_nat (n - 1)\<rparr>"

section \<open>Specification vocabulary: closed graphs and timestamps\<close>











section \<open>Spanning forest\<close>







section \<open>Specification vocabulary: undirected graphs, cycles, components\<close>

text \<open>The edge relation of an adjacency dictionary; an undirected graph has a symmetric
  one (then every neighbour is a vertex).\<close>

definition edges_of :: "('v \<times> 'v list) list \<Rightarrow> ('v \<times> 'v) set" where
  "edges_of ve = {(v, w). w \<in> set (nbrs ve v)}"

definition sym_graph :: "('v \<times> 'v list) list \<Rightarrow> bool" where
  "sym_graph ve \<longleftrightarrow> (\<forall>v \<in> set (keys ve). \<forall>w \<in> set (nbrs ve v). v \<in> set (nbrs ve w))"










section \<open>Dictionary lemmas\<close>

lemma map_of_update: "map_of (AList.update k a d) = (map_of d)(k \<mapsto> a)"
  by (rule update_conv')

lemma keys_update_known: "k \<in> set (keys d) \<Longrightarrow> keys (AList.update k a d) = keys d"
  unfolding keys_def by (induction d) auto

lemma set_keys_update: "set (keys (AList.update k a d)) = insert k (set (keys d))"
  unfolding keys_def by (induction d) auto

lemma map_of_None_keys: "map_of d k = None \<longleftrightarrow> k \<notin> set (keys d)"
  unfolding keys_def by (simp add: map_of_eq_None_iff)

lemma dict_item_known: "k \<in> set (keys d) \<Longrightarrow> dict_item d k = Inr (nbrs d k)"
  by (cases "map_of d k") (auto simp: dict_item_def nbrs_def dict_get_def map_of_None_keys)

lemma nbrs_update: "nbrs (AList.update k a d) x = (if x = k then a else nbrs d x)"
  by (simp add: nbrs_def dict_get_def map_of_update)

lemma set_set_add: "set (set_add x s) = insert x (set s)"
  by (auto simp: set_add_def)

lemma distinct_set_add: "distinct s \<Longrightarrow> distinct (set_add x s)"
  by (simp add: set_add_def)

section \<open>C1: add-edge returns a boolean and updates all or nothing\<close>

text \<open>
  Every graph the constructor builds, and every graph \<^verbatim>\<open>add_edge\<close> returns, has one degree
  counter per key of \<^verbatim>\<open>ve_dict\<close> (\<open>graph_init_seq_inv\<close>, \<open>digraph_init_inv\<close>,
  \<open>graph_add_edge_inv\<close>); this is the hypothesis under which \<^verbatim>\<open>self.degs[i] += 1\<close>
  cannot raise.
\<close>

lemma incr_known: "m v = Some n \<Longrightarrow> incr m v = Inr (m(v \<mapsto> n + 1))"
  by (simp add: incr_def map_item_def bind_err_def)

lemma adj_add_known:
  "v \<in> set (keys d) \<Longrightarrow> adj_add d v w = Inr (AList.update v (set_add w (nbrs d v)) d)"
  by (simp add: adj_add_def dict_item_known bind_err_def)

lemma graph_add_edge_closed_form:
  assumes "dom (degs G) = set (keys (graph.ve_dict G))"
  shows "graph_add_edge G v w =
     (if v = w \<or> v \<notin> set (keys (graph.ve_dict G)) \<or> w \<notin> set (keys (graph.ve_dict G))
         \<or> v \<in> set (nbrs (graph.ve_dict G) w)
      then Inr (False, G)
      else Inr (True, G\<lparr>graph.ve_dict :=
                  AList.update w (set_add v (nbrs (graph.ve_dict G) w))
                    (AList.update v (set_add w (nbrs (graph.ve_dict G) v)) (graph.ve_dict G)),
                degs := (degs G)(v \<mapsto> the (degs G v) + 1, w \<mapsto> the (degs G w) + 1),
                graph.ne := graph.ne G + 1\<rparr>))"
proof (cases "v = w \<or> v \<notin> set (keys (graph.ve_dict G)) \<or> w \<notin> set (keys (graph.ve_dict G))
         \<or> v \<in> set (nbrs (graph.ve_dict G) w)")
  case True
  then show ?thesis
    by (auto simp: graph_add_edge_def dict_item_known bind_err_def)
next
  case False
  then have vk: "v \<in> set (keys (graph.ve_dict G))" and wk: "w \<in> set (keys (graph.ve_dict G))"
    and ne: "v \<noteq> w" and notin: "v \<notin> set (nbrs (graph.ve_dict G) w)" by auto
  from vk assms obtain dv where dv: "degs G v = Some dv" by blast
  from wk assms obtain dw where dw: "degs G w = Some dw" by blast
  have i1: "incr (degs G) v = Inr ((degs G)(v \<mapsto> dv + 1))" using dv by (rule incr_known)
  have i2: "incr ((degs G)(v \<mapsto> dv + 1)) w = Inr ((degs G)(v \<mapsto> dv + 1, w \<mapsto> dw + 1))"
    using dw ne by (intro incr_known) simp
  have a1: "adj_add (graph.ve_dict G) v w
      = Inr (AList.update v (set_add w (nbrs (graph.ve_dict G) v)) (graph.ve_dict G))"
    using vk by (rule adj_add_known)
  have a2: "adj_add (AList.update v (set_add w (nbrs (graph.ve_dict G) v)) (graph.ve_dict G)) w v
      = Inr (AList.update w (set_add v (nbrs (graph.ve_dict G) w))
               (AList.update v (set_add w (nbrs (graph.ve_dict G) v)) (graph.ve_dict G)))"
    using wk ne by (subst adj_add_known) (auto simp: set_keys_update nbrs_update)
  show ?thesis
    using False vk wk ne notin dv dw
    by (simp add: graph_add_edge_def dict_item_known bind_err_def i1 i2 a1 a2)
qed

lemma digraph_add_edge_closed_form:
  assumes "dom (out_deg G) = set (keys (digraph.ve_dict G))"
  shows "digraph_add_edge G v w =
     (if v = w \<or> v \<notin> set (keys (digraph.ve_dict G)) \<or> w \<notin> set (keys (digraph.ve_dict G))
         \<or> w \<in> set (nbrs (digraph.ve_dict G) v)
      then Inr (False, G)
      else Inr (True, G\<lparr>digraph.ve_dict :=
                    AList.update v (set_add w (nbrs (digraph.ve_dict G) v)) (digraph.ve_dict G),
                out_deg := (out_deg G)(v \<mapsto> the (out_deg G v) + 1),
                digraph.ne := digraph.ne G + 1\<rparr>))"
proof (cases "v = w \<or> v \<notin> set (keys (digraph.ve_dict G)) \<or> w \<notin> set (keys (digraph.ve_dict G))
         \<or> w \<in> set (nbrs (digraph.ve_dict G) v)")
  case True
  then show ?thesis
    by (auto simp: digraph_add_edge_def dict_item_known bind_err_def)
next
  case False
  then have vk: "v \<in> set (keys (digraph.ve_dict G))" and wk: "w \<in> set (keys (digraph.ve_dict G))"
    and ne: "v \<noteq> w" and notin: "w \<notin> set (nbrs (digraph.ve_dict G) v)" by auto
  from vk assms obtain dv where dv: "out_deg G v = Some dv" by blast
  have i1: "incr (out_deg G) v = Inr ((out_deg G)(v \<mapsto> dv + 1))" using dv by (rule incr_known)
  have a1: "adj_add (digraph.ve_dict G) v w
      = Inr (AList.update v (set_add w (nbrs (digraph.ve_dict G) v)) (digraph.ve_dict G))"
    using vk by (rule adj_add_known)
  show ?thesis
    using False vk wk ne notin dv
    by (simp add: digraph_add_edge_def dict_item_known bind_err_def i1 a1)
qed

lemma foldl_update_lookup:
  "map_of (foldl (\<lambda>d (k, a). AList.update k a d) d (map (\<lambda>v. (v, f v)) vs)) x
     = (if x \<in> set vs then Some (f x) else map_of d x)"
  by (induction vs arbitrary: d) (auto simp: map_of_update)

lemma foldl_update_keys:
  "set (keys (foldl (\<lambda>d (k, a). AList.update k a d) d ps)) = set (keys d) \<union> fst ` set ps"
  by (induction ps arbitrary: d) (auto simp: set_keys_update)

lemma foldl_update_distinct:
  "distinct (keys d) \<Longrightarrow> distinct (keys (foldl (\<lambda>d (k, a). AList.update k a d) d ps))"
  by (induction ps arbitrary: d) (auto simp: keys_def distinct_update)

lemma py_dict_lookup:
  "map_of (py_dict (map (\<lambda>v. (v, f v)) vs)) x = (if x \<in> set vs then Some (f x) else None)"
  by (simp add: py_dict_def foldl_update_lookup)

lemma py_dict_keys: "set (keys (py_dict (map (\<lambda>v. (v, f v)) vs))) = set vs"
  unfolding py_dict_def foldl_update_keys by (simp add: keys_def image_image)

lemma py_dict_distinct: "distinct (keys (py_dict ps))"
  unfolding py_dict_def by (rule foldl_update_distinct) (simp add: keys_def)

lemma graph_init_seq_inv:
  "dom (degs (graph_init_seq vs n E)) = set (keys (graph.ve_dict (graph_init_seq vs n E)))"
  by (simp add: graph_init_seq_def Let_def py_dict_keys dom_map_of_conv_image_fst image_image)

lemma digraph_init_inv:
  "dom (out_deg (digraph_init vs E)) = set (keys (digraph.ve_dict (digraph_init vs E)))"
  by (simp add: digraph_init_def Let_def py_dict_keys dom_map_of_conv_image_fst image_image)

lemma graph_add_edge_inv:
  assumes "dom (degs G) = set (keys (graph.ve_dict G))" "graph_add_edge G v w = Inr (b, G')"
  shows "dom (degs G') = set (keys (graph.ve_dict G'))"
proof (cases b)
  case False
  with assms(2) have "G' = G"
    unfolding graph_add_edge_closed_form[OF assms(1)] by (simp split: if_splits)
  with assms(1) show ?thesis by simp
next
  case True
  with assms(2) have vk: "v \<in> set (keys (graph.ve_dict G))" and wk: "w \<in> set (keys (graph.ve_dict G))"
    and G': "G' = G\<lparr>graph.ve_dict :=
                  AList.update w (set_add v (nbrs (graph.ve_dict G) w))
                    (AList.update v (set_add w (nbrs (graph.ve_dict G) v)) (graph.ve_dict G)),
                degs := (degs G)(v \<mapsto> the (degs G v) + 1, w \<mapsto> the (degs G w) + 1),
                graph.ne := graph.ne G + 1\<rparr>"
    unfolding graph_add_edge_closed_form[OF assms(1)] by (simp_all split: if_splits)
  have "dom (degs G') = insert w (insert v (dom (degs G)))" by (simp add: G')
  moreover have "set (keys (graph.ve_dict G')) = insert w (insert v (set (keys (graph.ve_dict G))))"
    by (simp add: G' set_keys_update)
  ultimately show ?thesis using assms(1) by simp
qed

lemmas init_eval = graph_init_def graph_init_seq_def digraph_init_def py_dict_def dict_get_def
  keys_def nbrs_def

text \<open>
  Claim C1. For every graph \<open>G\<close>, digraph \<open>D\<close> and labels \<open>v\<close>, \<open>w\<close>: \<^verbatim>\<open>add_edge(v, w)\<close> raises
  nothing and returns a boolean. It returns \<open>False\<close> exactly when \<open>v = w\<close>, or \<open>v\<close> or
  \<open>w\<close> is no key of \<^verbatim>\<open>ve_dict\<close>, or the edge is present (the test of the source:
  \<open>v\<close> in the set of \<open>w\<close> for a graph, \<open>w\<close> in the set of \<open>v\<close> for a digraph), and then the
  object is unchanged. When it returns \<open>True\<close> the keys are the same, \<open>w\<close> has joined the
  set of \<open>v\<close> (and \<open>v\<close> the set of \<open>w\<close> in a graph), the other sets are the same, the
  counters of the endpoints (of \<open>v\<close> only in a digraph) have grown by one and no other,
  and \<^verbatim>\<open>ne\<close> has grown by one.
\<close>

theorem add_edge_boolean_atomic:
  assumes "dom (degs G) = set (keys (graph.ve_dict G))"
    and "dom (out_deg D) = set (keys (digraph.ve_dict D))"
  shows "(\<exists>b G'. graph_add_edge G v w = Inr (b, G') \<and>
            (\<not> b \<longleftrightarrow> v = w \<or> v \<notin> set (keys (graph.ve_dict G)) \<or> w \<notin> set (keys (graph.ve_dict G))
                       \<or> v \<in> set (nbrs (graph.ve_dict G) w)) \<and>
            (\<not> b \<longrightarrow> G' = G) \<and>
            (b \<longrightarrow> keys (graph.ve_dict G') = keys (graph.ve_dict G) \<and>
                  (\<forall>x. set (nbrs (graph.ve_dict G') x) =
                         (if x = v then insert w (set (nbrs (graph.ve_dict G) v))
                          else if x = w then insert v (set (nbrs (graph.ve_dict G) w))
                          else set (nbrs (graph.ve_dict G) x))) \<and>
                  (\<forall>x. degs G' x = (if x = v \<or> x = w then map_option (\<lambda>n. n + 1) (degs G x)
                                     else degs G x)) \<and>
                  graph.ne G' = graph.ne G + 1 \<and> graph.nv G' = graph.nv G)) \<and>
         (\<exists>b D'. digraph_add_edge D v w = Inr (b, D') \<and>
            (\<not> b \<longleftrightarrow> v = w \<or> v \<notin> set (keys (digraph.ve_dict D)) \<or> w \<notin> set (keys (digraph.ve_dict D))
                       \<or> w \<in> set (nbrs (digraph.ve_dict D) v)) \<and>
            (\<not> b \<longrightarrow> D' = D) \<and>
            (b \<longrightarrow> keys (digraph.ve_dict D') = keys (digraph.ve_dict D) \<and>
                  (\<forall>x. set (nbrs (digraph.ve_dict D') x) =
                         (if x = v then insert w (set (nbrs (digraph.ve_dict D) v))
                          else set (nbrs (digraph.ve_dict D) x))) \<and>
                  (\<forall>x. out_deg D' x = (if x = v then map_option (\<lambda>n. n + 1) (out_deg D x)
                                        else out_deg D x)) \<and>
                  digraph.ne D' = digraph.ne D + 1 \<and> digraph.nv D' = digraph.nv D))"
proof -
  have g: "\<exists>b G'. graph_add_edge G v w = Inr (b, G') \<and>
            (\<not> b \<longleftrightarrow> v = w \<or> v \<notin> set (keys (graph.ve_dict G)) \<or> w \<notin> set (keys (graph.ve_dict G))
                       \<or> v \<in> set (nbrs (graph.ve_dict G) w)) \<and>
            (\<not> b \<longrightarrow> G' = G) \<and>
            (b \<longrightarrow> keys (graph.ve_dict G') = keys (graph.ve_dict G) \<and>
                  (\<forall>x. set (nbrs (graph.ve_dict G') x) =
                         (if x = v then insert w (set (nbrs (graph.ve_dict G) v))
                          else if x = w then insert v (set (nbrs (graph.ve_dict G) w))
                          else set (nbrs (graph.ve_dict G) x))) \<and>
                  (\<forall>x. degs G' x = (if x = v \<or> x = w then map_option (\<lambda>n. n + 1) (degs G x)
                                     else degs G x)) \<and>
                  graph.ne G' = graph.ne G + 1 \<and> graph.nv G' = graph.nv G)"
  proof (cases "v = w \<or> v \<notin> set (keys (graph.ve_dict G)) \<or> w \<notin> set (keys (graph.ve_dict G))
                       \<or> v \<in> set (nbrs (graph.ve_dict G) w)")
    case True
    then show ?thesis
      unfolding graph_add_edge_closed_form[OF assms(1)]
      by (intro exI[of _ False] exI[of _ G]) simp
  next
    case False
    then have vk: "v \<in> set (keys (graph.ve_dict G))" and wk: "w \<in> set (keys (graph.ve_dict G))"
      and ne: "v \<noteq> w" by auto
    from vk wk assms(1) have "v \<in> dom (degs G)" "w \<in> dom (degs G)" by auto
    then obtain dv dw where "degs G v = Some dv" "degs G w = Some dw" by blast
    with False vk wk ne show ?thesis
      unfolding graph_add_edge_closed_form[OF assms(1)]
      by (intro exI[of _ True]
            exI[of _ "G\<lparr>graph.ve_dict :=
                  AList.update w (set_add v (nbrs (graph.ve_dict G) w))
                    (AList.update v (set_add w (nbrs (graph.ve_dict G) v)) (graph.ve_dict G)),
                degs := (degs G)(v \<mapsto> the (degs G v) + 1, w \<mapsto> the (degs G w) + 1),
                graph.ne := graph.ne G + 1\<rparr>"])
         (simp add: keys_update_known set_keys_update nbrs_update set_set_add)
  qed
  have d: "\<exists>b D'. digraph_add_edge D v w = Inr (b, D') \<and>
            (\<not> b \<longleftrightarrow> v = w \<or> v \<notin> set (keys (digraph.ve_dict D)) \<or> w \<notin> set (keys (digraph.ve_dict D))
                       \<or> w \<in> set (nbrs (digraph.ve_dict D) v)) \<and>
            (\<not> b \<longrightarrow> D' = D) \<and>
            (b \<longrightarrow> keys (digraph.ve_dict D') = keys (digraph.ve_dict D) \<and>
                  (\<forall>x. set (nbrs (digraph.ve_dict D') x) =
                         (if x = v then insert w (set (nbrs (digraph.ve_dict D) v))
                          else set (nbrs (digraph.ve_dict D) x))) \<and>
                  (\<forall>x. out_deg D' x = (if x = v then map_option (\<lambda>n. n + 1) (out_deg D x)
                                        else out_deg D x)) \<and>
                  digraph.ne D' = digraph.ne D + 1 \<and> digraph.nv D' = digraph.nv D)"
  proof (cases "v = w \<or> v \<notin> set (keys (digraph.ve_dict D)) \<or> w \<notin> set (keys (digraph.ve_dict D))
                       \<or> w \<in> set (nbrs (digraph.ve_dict D) v)")
    case True
    then show ?thesis
      unfolding digraph_add_edge_closed_form[OF assms(2)]
      by (intro exI[of _ False] exI[of _ D]) simp
  next
    case False
    then have vk: "v \<in> set (keys (digraph.ve_dict D))" by auto
    with assms(2) have "v \<in> dom (out_deg D)" by auto
    then obtain dv where "out_deg D v = Some dv" by blast
    with False vk show ?thesis
      unfolding digraph_add_edge_closed_form[OF assms(2)]
      by (intro exI[of _ True]
            exI[of _ "D\<lparr>digraph.ve_dict :=
                    AList.update v (set_add w (nbrs (digraph.ve_dict D) v)) (digraph.ve_dict D),
                out_deg := (out_deg D)(v \<mapsto> the (out_deg D v) + 1),
                digraph.ne := digraph.ne D + 1\<rparr>"])
         (simp add: keys_update_known nbrs_update set_set_add)
  qed
  from g d show ?thesis by (rule conjI)
qed

theorem add_edge_boolean_atomic_witness:
  "dom (degs (graph_init [0, 1, 2::int] [])) = set (keys (graph.ve_dict (graph_init [0, 1, 2::int] [])))
   \<and> dom (out_deg (digraph_init [0, 1, 2::int] []))
       = set (keys (digraph.ve_dict (digraph_init [0, 1, 2::int] [])))
   \<and> (\<exists>G'. graph_add_edge (graph_init [0, 1, 2::int] []) 0 1 = Inr (True, G') \<and> graph.ne G' = 1
          \<and> set (nbrs (graph.ve_dict G') 1) = {0} \<and> degs G' 0 = Some 1)
   \<and> (\<exists>D'. digraph_add_edge (digraph_init [0, 1, 2::int] []) 0 1 = Inr (True, D') \<and> digraph.ne D' = 1
          \<and> set (nbrs (digraph.ve_dict D') 0) = {1} \<and> out_deg D' 1 = Some 0)"
proof -
  let ?G = "graph_init [0, 1, 2::int] []"
  let ?D = "digraph_init [0, 1, 2::int] []"
  have h1: "dom (degs ?G) = set (keys (graph.ve_dict ?G))"
    by (simp add: init_eval dom_map_of_conv_image_fst)
  have h2: "dom (out_deg ?D) = set (keys (digraph.ve_dict ?D))"
    by (simp add: init_eval dom_map_of_conv_image_fst)
  have e: "graph.ne ?G = 0" "nbrs (graph.ve_dict ?G) 1 = []" "degs ?G 0 = Some 0"
    "digraph.ne ?D = 0" "nbrs (digraph.ve_dict ?D) 0 = []" "out_deg ?D 1 = Some 0"
    "keys (graph.ve_dict ?G) = [0, 1, 2]" "keys (digraph.ve_dict ?D) = [0, 1, 2]"
    by (simp_all add: init_eval)
  from add_edge_boolean_atomic[OF h1 h2, of 0 1]
  obtain b G' c D' where
    g: "graph_add_edge ?G 0 1 = Inr (b, G')"
       "(\<not> b) = ((0::int) = 1 \<or> 0 \<notin> set (keys (graph.ve_dict ?G)) \<or> 1 \<notin> set (keys (graph.ve_dict ?G))
                       \<or> 0 \<in> set (nbrs (graph.ve_dict ?G) 1))"
       "b \<longrightarrow> set (nbrs (graph.ve_dict G') 1) = insert 0 (set (nbrs (graph.ve_dict ?G) 1))
              \<and> degs G' 0 = map_option (\<lambda>n. n + 1) (degs ?G 0) \<and> graph.ne G' = graph.ne ?G + 1"
    and d: "digraph_add_edge ?D 0 1 = Inr (c, D')"
       "(\<not> c) = ((0::int) = 1 \<or> 0 \<notin> set (keys (digraph.ve_dict ?D)) \<or> 1 \<notin> set (keys (digraph.ve_dict ?D))
                       \<or> 1 \<in> set (nbrs (digraph.ve_dict ?D) 0))"
       "c \<longrightarrow> set (nbrs (digraph.ve_dict D') 0) = insert 1 (set (nbrs (digraph.ve_dict ?D) 0))
              \<and> out_deg D' 1 = out_deg ?D 1 \<and> digraph.ne D' = digraph.ne ?D + 1"
    by (elim conjE exE) simp
  from g(2) have b: b by (simp add: e)
  from d(2) have c: c by (simp add: e)
  from g(1,3) b have "\<exists>G'. graph_add_edge ?G 0 1 = Inr (True, G') \<and> graph.ne G' = 1
          \<and> set (nbrs (graph.ve_dict G') 1) = {0} \<and> degs G' 0 = Some 1"
    by (simp add: e)
  moreover from d(1,3) c have "\<exists>D'. digraph_add_edge ?D 0 1 = Inr (True, D') \<and> digraph.ne D' = 1
          \<and> set (nbrs (digraph.ve_dict D') 0) = {1} \<and> out_deg D' 1 = Some 0"
    by (simp add: e)
  ultimately show ?thesis using h1 h2 by blast
qed

section \<open>C2: the edge count against the degree counters\<close>

text \<open>
  Without seed edges the bookkeeping is right: the constructor establishes the invariant
  and \<^verbatim>\<open>add_edge\<close> keeps it (\<open>graph_init_counted\<close>, \<open>graph_add_edge_counted\<close> and the
  digraph versions).
\<close>

lemma degree_sum_other: "v \<notin> set ks \<Longrightarrow> degree_sum (m(v \<mapsto> n)) ks = degree_sum m ks"
  by (induction ks) (auto simp: degree_sum_def)

lemma degree_sum_incr:
  "distinct ks \<Longrightarrow> v \<in> set ks \<Longrightarrow> m v = Some d
     \<Longrightarrow> degree_sum (m(v \<mapsto> d + 1)) ks = degree_sum m ks + 1"
proof (induction ks)
  case Nil
  then show ?case by simp
next
  case (Cons k ks)
  show ?case
  proof (cases "k = v")
    case True
    with Cons.prems have "v \<notin> set ks" by simp
    then have "degree_sum (m(v \<mapsto> d + 1)) ks = degree_sum m ks" by (rule degree_sum_other)
    with True Cons.prems show ?thesis by (simp add: degree_sum_def)
  next
    case False
    from Cons.prems False have "distinct ks" "v \<in> set ks" by auto
    then have "degree_sum (m(v \<mapsto> d + 1)) ks = degree_sum m ks + 1"
      using Cons.prems(3) by (rule Cons.IH)
    with False show ?thesis by (simp add: degree_sum_def)
  qed
qed

lemma sum_lengths_empty_sets:
  "\<forall>p \<in> set d. snd p = [] \<Longrightarrow> sum_list (map (\<lambda>(v, s). int (length s)) d) = 0"
  by (induction d) auto

lemma py_dict_empty_sets:
  "p \<in> set (py_dict (map (\<lambda>v. (v, [])) vs)) \<Longrightarrow> snd p = []"
proof -
  assume p: "p \<in> set (py_dict (map (\<lambda>v. (v, [])) vs))"
  have "distinct (map fst (py_dict (map (\<lambda>v. (v, [])) vs)))"
    using py_dict_distinct[of "map (\<lambda>v. (v, [])) vs"] by (simp add: keys_def)
  with p have "map_of (py_dict (map (\<lambda>v. (v, [])) vs)) (fst p) = Some (snd p)"
    by (metis map_of_eq_Some_iff prod.collapse)
  then show ?thesis by (simp add: py_dict_lookup split: if_splits)
qed

lemma degree_sum_zero: "degree_sum (map_of (map (\<lambda>v. (v, 0)) vs)) ks = 0"
proof -
  have "\<And>k. (case map_of (map (\<lambda>v. (v, 0::int)) vs) k of None \<Rightarrow> 0 | Some d \<Rightarrow> d) = 0"
    by (auto simp: map_of_map_restrict restrict_map_def split: option.splits dest: map_of_SomeD)
  then show ?thesis by (simp add: degree_sum_def)
qed

lemma graph_init_counted: "graph_counted (graph_init vs [])"
proof -
  have "sum_list (map (\<lambda>(v, s). int (length s)) (py_dict (map (\<lambda>v. (v, [])) vs))) = 0"
    by (rule sum_lengths_empty_sets) (auto dest: py_dict_empty_sets)
  then show ?thesis
    using graph_init_seq_inv[of vs "int (length vs)" "[]"]
    by (simp add: graph_counted_def graph_init_def graph_init_seq_def dict_get_def Let_def
        py_dict_distinct degree_sum_zero)
qed

lemma digraph_init_counted: "digraph_counted (digraph_init vs [])"
proof -
  have "sum_list (map (\<lambda>(v, s). int (length s)) (py_dict (map (\<lambda>v. (v, [])) vs))) = 0"
    by (rule sum_lengths_empty_sets) (auto dest: py_dict_empty_sets)
  then show ?thesis
    using digraph_init_inv[of vs "[]"]
    by (simp add: digraph_counted_def digraph_init_def dict_get_def Let_def
        py_dict_distinct degree_sum_zero)
qed

lemma graph_add_edge_counted:
  assumes "graph_counted G" "graph_add_edge G v w = Inr (b, G')"
  shows "graph_counted G'"
proof -
  from assms(1) have inv: "dom (degs G) = set (keys (graph.ve_dict G))"
    and dist: "distinct (keys (graph.ve_dict G))"
    and cnt: "graph.ne G = of_int (degree_sum (degs G) (keys (graph.ve_dict G))) / 2"
    by (simp_all add: graph_counted_def)
  show ?thesis
  proof (cases b)
    case False
    with assms(2) have "G' = G"
      unfolding graph_add_edge_closed_form[OF inv] by (simp split: if_splits)
    with assms(1) show ?thesis by simp
  next
    case True
    with assms(2) have vk: "v \<in> set (keys (graph.ve_dict G))" and wk: "w \<in> set (keys (graph.ve_dict G))"
      and vw: "v \<noteq> w"
      and G': "G' = G\<lparr>graph.ve_dict :=
                  AList.update w (set_add v (nbrs (graph.ve_dict G) w))
                    (AList.update v (set_add w (nbrs (graph.ve_dict G) v)) (graph.ve_dict G)),
                degs := (degs G)(v \<mapsto> the (degs G v) + 1, w \<mapsto> the (degs G w) + 1),
                graph.ne := graph.ne G + 1\<rparr>"
      unfolding graph_add_edge_closed_form[OF inv] by (simp_all split: if_splits)
    from vk wk inv obtain dv dw where dv: "degs G v = Some dv" and dw: "degs G w = Some dw"
      by blast
    have k: "keys (graph.ve_dict G') = keys (graph.ve_dict G)"
      using vk wk by (simp add: G' keys_update_known set_keys_update)
    have "degree_sum ((degs G)(v \<mapsto> dv + 1)) (keys (graph.ve_dict G))
            = degree_sum (degs G) (keys (graph.ve_dict G)) + 1"
      using dist vk dv by (rule degree_sum_incr)
    moreover have "degree_sum ((degs G)(v \<mapsto> dv + 1, w \<mapsto> dw + 1)) (keys (graph.ve_dict G))
            = degree_sum ((degs G)(v \<mapsto> dv + 1)) (keys (graph.ve_dict G)) + 1"
      using dist wk dw vw by (intro degree_sum_incr) simp_all
    ultimately have "degree_sum (degs G') (keys (graph.ve_dict G'))
            = degree_sum (degs G) (keys (graph.ve_dict G)) + 2"
      by (simp add: k) (simp add: G' dv dw)
    moreover have "graph.ne G' = graph.ne G + 1" by (simp add: G')
    moreover have "dom (degs G') = set (keys (graph.ve_dict G'))"
      using inv assms(2) by (rule graph_add_edge_inv)
    ultimately show ?thesis using dist cnt by (simp add: graph_counted_def k)
  qed
qed

lemma digraph_add_edge_counted:
  assumes "digraph_counted D" "digraph_add_edge D v w = Inr (b, D')"
  shows "digraph_counted D'"
proof -
  from assms(1) have inv: "dom (out_deg D) = set (keys (digraph.ve_dict D))"
    and dist: "distinct (keys (digraph.ve_dict D))"
    and cnt: "digraph.ne D = degree_sum (out_deg D) (keys (digraph.ve_dict D))"
    by (simp_all add: digraph_counted_def)
  show ?thesis
  proof (cases b)
    case False
    with assms(2) have "D' = D"
      unfolding digraph_add_edge_closed_form[OF inv] by (simp split: if_splits)
    with assms(1) show ?thesis by simp
  next
    case True
    with assms(2) have vk: "v \<in> set (keys (digraph.ve_dict D))"
      and D': "D' = D\<lparr>digraph.ve_dict :=
                    AList.update v (set_add w (nbrs (digraph.ve_dict D) v)) (digraph.ve_dict D),
                out_deg := (out_deg D)(v \<mapsto> the (out_deg D v) + 1),
                digraph.ne := digraph.ne D + 1\<rparr>"
      unfolding digraph_add_edge_closed_form[OF inv] by (simp_all split: if_splits)
    from vk inv obtain dv where dv: "out_deg D v = Some dv" by blast
    have k: "keys (digraph.ve_dict D') = keys (digraph.ve_dict D)"
      using vk by (simp add: D' keys_update_known)
    have "degree_sum ((out_deg D)(v \<mapsto> dv + 1)) (keys (digraph.ve_dict D))
            = degree_sum (out_deg D) (keys (digraph.ve_dict D)) + 1"
      using dist vk dv by (rule degree_sum_incr)
    then have "degree_sum (out_deg D') (keys (digraph.ve_dict D'))
            = degree_sum (out_deg D) (keys (digraph.ve_dict D)) + 1"
      by (simp add: k) (simp add: D' dv)
    moreover have "dom (out_deg D') = set (keys (digraph.ve_dict D'))"
      unfolding k using inv vk by (auto simp: D')
    moreover have "digraph.ne D' = digraph.ne D + 1" by (simp add: D')
    ultimately show ?thesis using dist cnt by (simp add: digraph_counted_def k)
  qed
qed

text \<open>
  Claim C2 (the edge count equals half the degree sum, or the out-degree sum, for every
  graph built from any seed edge mapping) fails in the constructor: \<^verbatim>\<open>ne\<close> is computed
  from the seed sets while every counter of \<^verbatim>\<open>degs\<close> (\<^verbatim>\<open>out_deg\<close>) starts at 0.
  For \<^verbatim>\<open>graph([0, 1], {0: {1}, 1: {0}})\<close> the edge count is 1 and the degree sum is 0;
  for \<^verbatim>\<open>digraph([0, 1], {0: {1}})\<close> likewise.
\<close>

theorem init_seed_edges_leave_degrees_zero:
  "graph.ne (graph_init [0, 1::int] [(0, [1]), (1, [0])]) = 1
   \<and> degree_sum (degs (graph_init [0, 1::int] [(0, [1]), (1, [0])]))
        (keys (graph.ve_dict (graph_init [0, 1::int] [(0, [1]), (1, [0])]))) = 0
   \<and> digraph.ne (digraph_init [0, 1::int] [(0, [1])]) = 1
   \<and> degree_sum (out_deg (digraph_init [0, 1::int] [(0, [1])]))
        (keys (digraph.ve_dict (digraph_init [0, 1::int] [(0, [1])]))) = 0"
  by (simp add: init_eval degree_sum_def)

section \<open>C9: what the constructor drops from the seed edges\<close>

text \<open>
  Claim C9 as stated (no vertex outside \<open>V\<close> is mentioned by the adjacency structure,
  also when it occurs as a member of a neighbour set) fails:
  \<^verbatim>\<open>graph([0], {0: {5}})\<close> keeps 5 in the set of 0 although 5 is no vertex.
\<close>

theorem init_keeps_unknown_neighbour:
  "nbrs (graph.ve_dict (graph_init [0::int] [(0, [5])])) 0 = [5]
   \<and> 5 \<notin> set (keys (graph.ve_dict (graph_init [0::int] [(0, [5])])))
   \<and> nbrs (digraph.ve_dict (digraph_init [0::int] [(0, [5])])) 0 = [5]
   \<and> 5 \<notin> set (keys (digraph.ve_dict (digraph_init [0::int] [(0, [5])])))"
  by (simp add: init_eval)

text \<open>
  Claim C9, amended. For every vertex collection and seed edge mapping the constructor
  raises nothing; the keys of \<^verbatim>\<open>ve_dict\<close> are exactly the given vertices, so a seed
  entry under a key outside \<open>V\<close> is dropped; the set of a vertex is the seed set under
  that key as it was passed (members outside \<open>V\<close> included), or empty without one.
\<close>

theorem init_filters_keys_only:
  "map_of (graph.ve_dict (graph_init verts E))
      = (\<lambda>v. if v \<in> set verts then Some (dict_get E v []) else None)
   \<and> set (keys (graph.ve_dict (graph_init verts E))) = set verts
   \<and> map_of (digraph.ve_dict (digraph_init verts E))
      = (\<lambda>v. if v \<in> set verts then Some (dict_get E v []) else None)
   \<and> set (keys (digraph.ve_dict (digraph_init verts E))) = set verts"
  by (auto simp: graph_init_def graph_init_seq_def digraph_init_def Let_def py_dict_lookup py_dict_keys)

section \<open>C5: induced subgraphs\<close>

lemma bind_err_Inr [simp]: "bind_err (Inr x) f = f x"
  by (simp add: bind_err_def)

lemma bind_err_Inl [simp]: "bind_err (Inl e) f = Inl e"
  by (simp add: bind_err_def)

lemma map_err_total:
  "(\<And>x. x \<in> set xs \<Longrightarrow> f x = Inr (g x)) \<Longrightarrow> map_err f xs = Inr (map g xs)"
  by (induction xs) simp_all

lemma some_edges_known:
  assumes "set S \<subseteq> set (keys ve)"
  shows "some_edges ve S
     = Inr (py_dict (map (\<lambda>v. (v, py_set (filter (\<lambda>e. e \<in> set S) (nbrs ve v)))) S))"
proof -
  have "map_err (\<lambda>v. bind_err (dict_item ve v)
                 (\<lambda>s. Inr (v, py_set (filter (\<lambda>e. e \<in> set S) s)))) S
      = Inr (map (\<lambda>v. (v, py_set (filter (\<lambda>e. e \<in> set S) (nbrs ve v)))) S)"
    using assms by (intro map_err_total) (auto simp: dict_item_known)
  then show ?thesis by (simp add: some_edges_def)
qed

lemma graph_subgraph_induced:
  assumes "set S \<subseteq> set (keys (graph.ve_dict G))"
  shows "\<exists>H. graph_subgraph G S = Inr H \<and> set (keys (graph.ve_dict H)) = set S \<and>
           (\<forall>v \<in> set S. set (nbrs (graph.ve_dict H) v) = set (nbrs (graph.ve_dict G) v) \<inter> set S)"
proof -
  let ?es = "py_dict (map (\<lambda>v. (v, py_set (filter (\<lambda>e. e \<in> set S) (nbrs (graph.ve_dict G) v)))) S)"
  have sub: "graph_subgraph G S = Inr (graph_init S ?es)"
    by (simp add: graph_subgraph_def some_edges_known[OF assms])
  have k: "set (keys (graph.ve_dict (graph_init S ?es))) = set S"
    by (simp add: graph_init_def graph_init_seq_def Let_def py_dict_keys)
  have n: "set (nbrs (graph.ve_dict (graph_init S ?es)) v) = set (nbrs (graph.ve_dict G) v) \<inter> set S"
    if "v \<in> set S" for v
    using that
    by (auto simp: graph_init_def graph_init_seq_def Let_def nbrs_def[of "py_dict _"]
        dict_get_def[of "py_dict _"] py_dict_lookup py_set_def)
  from sub k n show ?thesis by blast
qed

text \<open>
  Claim C5 (subgraph returns a new instance of the same kind, a digraph for a digraph,
  on exactly the given vertices with exactly the edges between them). For a graph this
  holds (\<open>graph_subgraph_induced\<close>). For a digraph the call never returns
  (\<open>digraph_subgraph_never_returns\<close>): \<^verbatim>\<open>digraph([0, 1]).subgraph([0])\<close> raises
  NameError.
\<close>

theorem digraph_subgraph_raises_NameError:
  "digraph_subgraph (digraph_init [0, 1::int] []) [0] = Inl NameError"
  by (simp add: digraph_subgraph_def some_edges_def dict_item_def init_eval py_set_def)

lemma digraph_subgraph_never_returns: "digraph_subgraph D S \<noteq> Inr H"
  by (simp add: digraph_subgraph_def bind_err_def split: sum.splits)

section \<open>C7: the weighted sampler\<close>

lemma choice_loop_first:
  "i < length wd \<Longrightarrow> foldl (float_add fl) t (map snd (take (Suc i) wd)) \<ge> c
     \<Longrightarrow> (\<forall>j < i. foldl (float_add fl) t (map snd (take (Suc j) wd)) < c)
     \<Longrightarrow> choice_loop fl wd c t l = Some (fst (wd ! i))"
proof (induction wd arbitrary: i t l)
  case Nil
  then show ?case by simp
next
  case (Cons p wd)
  obtain k w where p: "p = (k, w)" by (cases p)
  show ?case
  proof (cases i)
    case 0
    with Cons.prems p show ?thesis by simp
  next
    case (Suc i')
    from Cons.prems(3) Suc
    have "foldl (float_add fl) t (map snd (take (Suc 0) (p # wd))) < c" by blast
    then have lt: "\<not> c \<le> float_add fl t w" by (simp add: p)
    have "choice_loop fl wd c (float_add fl t w) (Some k) = Some (fst (wd ! i'))"
    proof (rule Cons.IH)
      show "i' < length wd" using Cons.prems(1) Suc by simp
      show "c \<le> foldl (float_add fl) (float_add fl t w) (map snd (take (Suc i') wd))"
        using Cons.prems(2) Suc by (simp add: p)
      show "\<forall>j<i'. foldl (float_add fl) (float_add fl t w) (map snd (take (Suc j) wd)) < c"
      proof (intro allI impI)
        fix j assume "j < i'"
        then have "Suc j < i" using Suc by simp
        with Cons.prems(3)
        have "foldl (float_add fl) t (map snd (take (Suc (Suc j)) (p # wd))) < c" by blast
        then show "foldl (float_add fl) (float_add fl t w) (map snd (take (Suc j) wd)) < c"
          by (simp add: p)
      qed
    qed
    with lt Suc show ?thesis by (simp add: p)
  qed
qed

lemma choice_loop_last:
  "(\<forall>j < length wd. foldl (float_add fl) t (map snd (take (Suc j) wd)) < c)
     \<Longrightarrow> choice_loop fl wd c t l = (if wd = [] then l else Some (fst (last wd)))"
proof (induction wd arbitrary: t l)
  case Nil
  then show ?case by simp
next
  case (Cons p wd)
  obtain k w where p: "p = (k, w)" by (cases p)
  from Cons.prems have "foldl (float_add fl) t (map snd (take (Suc 0) (p # wd))) < c" by blast
  then have lt: "\<not> c \<le> float_add fl t w" by (simp add: p)
  have "choice_loop fl wd c (float_add fl t w) (Some k)
          = (if wd = [] then Some k else Some (fst (last wd)))"
  proof (rule Cons.IH, intro allI impI)
    fix j assume "j < length wd"
    then have "Suc j < length (p # wd)" by simp
    with Cons.prems
    have "foldl (float_add fl) t (map snd (take (Suc (Suc j)) (p # wd))) < c" by blast
    then show "foldl (float_add fl) (float_add fl t w) (map snd (take (Suc j) wd)) < c"
      by (simp add: p)
  qed
  with lt show ?case by (simp add: p)
qed

lemma first_or_none_reaching:
  "(\<exists>i. first_reaching fl wd cutoff i) \<or> none_reaching fl wd cutoff"
proof (cases "none_reaching fl wd cutoff")
  case True
  then show ?thesis by simp
next
  case False
  let ?P = "\<lambda>i. i < length wd \<and> cumulative fl wd i \<ge> cutoff"
  from False obtain i0 where "?P i0"
    unfolding none_reaching_def by (meson not_le)
  then have l: "?P (LEAST i. ?P i)" by (rule LeastI)
  have "\<forall>j < (LEAST i. ?P i). cumulative fl wd j < cutoff"
  proof (intro allI impI)
    fix j assume j: "j < (LEAST i. ?P i)"
    then have "\<not> ?P j" by (rule not_less_Least)
    moreover from j l have "j < length wd" by simp
    ultimately show "cumulative fl wd j < cutoff" by simp
  qed
  with l have "first_reaching fl wd cutoff (LEAST i. ?P i)"
    unfolding first_reaching_def by blast
  then show ?thesis by blast
qed

lemma choice_loop_selects:
  assumes "wd \<noteq> []"
  shows "\<exists>i < length wd. (first_reaching fl wd cutoff i
              \<or> none_reaching fl wd cutoff \<and> i = length wd - 1)
            \<and> choice_loop fl wd cutoff 0 None = Some (fst (wd ! i))"
proof -
  from first_or_none_reaching[of fl wd cutoff] show ?thesis
  proof (elim disjE exE)
    fix i assume i: "first_reaching fl wd cutoff i"
    then have "choice_loop fl wd cutoff 0 None = Some (fst (wd ! i))"
      unfolding first_reaching_def cumulative_def by (intro choice_loop_first) simp_all
    with i show ?thesis unfolding first_reaching_def by blast
  next
    assume n: "none_reaching fl wd cutoff"
    then have "choice_loop fl wd cutoff 0 None = (if wd = [] then None else Some (fst (last wd)))"
      unfolding none_reaching_def cumulative_def by (intro choice_loop_last) simp
    with assms have "choice_loop fl wd cutoff 0 None = Some (fst (wd ! (length wd - 1)))"
      by (simp add: last_conv_nth)
    with n assms show ?thesis by (intro exI[of _ "length wd - 1"]) simp
  qed
qed

text \<open>
  Claim C7, amended. The sampler of digraph.py prints an error and returns \<^verbatim>\<open>False\<close>
  exactly when the float \<^verbatim>\<open>sum(weight_dict.values())\<close> differs from 1, compared exactly
  and with no tolerance; the sampler of graph.py and graphs.py never tests the sum.
  Otherwise, on a non-empty mapping, the sampler returns the first key, in iteration
  order, whose inclusive cumulative weight reaches or exceeds the draw, and the last key
  when no cumulative weight does; the cumulative weights are the running sums of the loop,
  added in floating point. On an empty mapping the loop variable is never bound and
  \<^verbatim>\<open>return choice\<close> raises UnboundLocalError. This holds whatever the rounding of the
  float operations \<open>fl\<close> is.
\<close>

theorem weighted_choice_validates_exactly:
  "(float_sum fl (map snd wd) \<noteq> 1 \<longrightarrow>
      digraph_weighted_choice fl wd cutoff = Inr ([''error: dict_values should sum to 1.''], PyFalse))
   \<and> (wd \<noteq> [] \<longrightarrow>
        (\<exists>i < length wd.
            (first_reaching fl wd cutoff i \<or> none_reaching fl wd cutoff \<and> i = length wd - 1)
            \<and> graph_weighted_choice fl wd cutoff = Inr (fst (wd ! i))
            \<and> (float_sum fl (map snd wd) = 1 \<longrightarrow>
                  digraph_weighted_choice fl wd cutoff = Inr ([], Key (fst (wd ! i))))))
   \<and> (wd = [] \<longrightarrow>
        graph_weighted_choice fl wd cutoff = Inl UnboundLocalError
        \<and> (float_sum fl (map snd wd) = 1 \<longrightarrow>
              digraph_weighted_choice fl wd cutoff = Inl UnboundLocalError))"
proof (intro conjI impI)
  assume "float_sum fl (map snd wd) \<noteq> 1"
  then show "digraph_weighted_choice fl wd cutoff
      = Inr ([''error: dict_values should sum to 1.''], PyFalse)"
    by (simp add: digraph_weighted_choice_def)
next
  assume "wd \<noteq> []"
  then obtain i where i: "i < length wd"
      "first_reaching fl wd cutoff i \<or> none_reaching fl wd cutoff \<and> i = length wd - 1"
      "choice_loop fl wd cutoff 0 None = Some (fst (wd ! i))"
    using choice_loop_selects by blast
  then show "\<exists>i < length wd.
            (first_reaching fl wd cutoff i \<or> none_reaching fl wd cutoff \<and> i = length wd - 1)
            \<and> graph_weighted_choice fl wd cutoff = Inr (fst (wd ! i))
            \<and> (float_sum fl (map snd wd) = 1 \<longrightarrow>
                  digraph_weighted_choice fl wd cutoff = Inr ([], Key (fst (wd ! i))))"
    by (intro exI[of _ i]) (simp add: digraph_weighted_choice_def graph_weighted_choice_def)
next
  assume "wd = []"
  then show "graph_weighted_choice fl wd cutoff = Inl UnboundLocalError"
    by (simp add: graph_weighted_choice_def)
next
  assume "wd = []" "float_sum fl (map snd wd) = 1"
  then show "digraph_weighted_choice fl wd cutoff = Inl UnboundLocalError"
    by (simp add: digraph_weighted_choice_def)
qed

lemma first_reaching_unique:
  "first_reaching fl wd c i \<Longrightarrow> first_reaching fl wd c j \<Longrightarrow> i = j"
  unfolding first_reaching_def by (metis linorder_neqE_nat not_le)

lemma first_not_none_reaching: "first_reaching fl wd c i \<Longrightarrow> \<not> none_reaching fl wd c"
  unfolding first_reaching_def none_reaching_def by (meson not_le)

theorem weighted_choice_validates_exactly_witness:
  "float_sum exact_ops (map snd [(10::int, 1/2), (20, 1/2::rat)]) = 1
   \<and> first_reaching exact_ops [(10::int, 1/2), (20, 1/2::rat)] (3/4) 1
   \<and> digraph_weighted_choice exact_ops [(10::int, 1/2), (20, 1/2)] (3/4) = Inr ([], Key 20)
   \<and> graph_weighted_choice exact_ops [(10::int, 1/2), (20, 1/2)] (3/4) = Inr 20
   \<and> float_sum exact_ops (map snd [(10::int, 1/4::rat)]) \<noteq> 1
   \<and> digraph_weighted_choice exact_ops [(10::int, 1/4)] (3/4)
        = Inr ([''error: dict_values should sum to 1.''], PyFalse)
   \<and> graph_weighted_choice exact_ops ([] :: (int \<times> rat) list) (3/4) = Inl UnboundLocalError"
proof -
  let ?wd = "[(10::int, 1/2), (20, 1/2::rat)]"
  have s: "float_sum exact_ops (map snd ?wd) = 1" by (simp add: exact_ops_def)
  have f: "first_reaching exact_ops ?wd (3/4) 1"
    by (simp add: first_reaching_def cumulative_def exact_ops_def)
  have ne: "?wd \<noteq> []" by simp
  from weighted_choice_validates_exactly[of exact_ops ?wd "3/4"] ne s
  obtain i where i: "i < length ?wd"
    "first_reaching exact_ops ?wd (3/4) i
       \<or> none_reaching exact_ops ?wd (3/4) \<and> i = length ?wd - 1"
    "graph_weighted_choice exact_ops ?wd (3/4) = Inr (fst (?wd ! i))"
    "digraph_weighted_choice exact_ops ?wd (3/4) = Inr ([], Key (fst (?wd ! i)))"
    by blast
  from i(2) first_not_none_reaching[OF f] have "first_reaching exact_ops ?wd (3/4) i" by blast
  from this f have "i = 1" by (rule first_reaching_unique)
  with i have r: "digraph_weighted_choice exact_ops ?wd (3/4) = Inr ([], Key 20)"
    "graph_weighted_choice exact_ops ?wd (3/4) = Inr 20" by simp_all
  have n: "float_sum exact_ops (map snd [(10::int, 1/4::rat)]) \<noteq> 1"
    by (simp add: exact_ops_def)
  from weighted_choice_validates_exactly[of exact_ops "[(10::int, 1/4)]" "3/4"] n
  have p: "digraph_weighted_choice exact_ops [(10::int, 1/4)] (3/4)
        = Inr ([''error: dict_values should sum to 1.''], PyFalse)" by blast
  from weighted_choice_validates_exactly[of exact_ops "[] :: (int \<times> rat) list" "3/4"]
  have e: "graph_weighted_choice exact_ops ([] :: (int \<times> rat) list) (3/4) = Inl UnboundLocalError"
    by blast
  from s f r n p e show ?thesis by blast
qed

text \<open>
  Claim C7 as stated (the sampler fails exactly when the weights are not within a
  tolerance of 1, and otherwise returns a key whose cumulative weight reaches the draw)
  fails both ways. The sampler of graph.py returns the key of the single weight 1/2 also
  at the draw 3/4, which no cumulative weight reaches; the sampler of digraph.py returns
  \<^verbatim>\<open>False\<close> for the single weight \<open>1 - 2\<^sup>-\<^sup>4\<^sup>0\<close>, which is a float within \<open>10\<^sup>-\<^sup>9\<close> of 1.
\<close>

theorem weighted_choice_no_validation:
  "\<bar>float_sum exact_ops (map snd [(10::int, 1/2::rat)]) - 1\<bar> > 1 / 10 ^ 9
   \<and> cumulative exact_ops [(10::int, 1/2::rat)] 0 < 3/4
   \<and> graph_weighted_choice exact_ops [(10::int, 1/2)] (3/4) = Inr 10
   \<and> \<bar>float_sum exact_ops (map snd [(10::int, 1 - 1 / 2 ^ 40 :: rat)]) - 1\<bar> \<le> 1 / 10 ^ 9
   \<and> digraph_weighted_choice exact_ops [(10::int, 1 - 1 / 2 ^ 40)] (1/4)
        = Inr ([''error: dict_values should sum to 1.''], PyFalse)"
  by (simp add: graph_weighted_choice_def digraph_weighted_choice_def exact_ops_def
      cumulative_def)
section \<open>C6: a random edge for a complete graph\<close>

lemma graph_norm_zero_iff:
  "of_int (graph.nv G * (graph.nv G - 1)) - 2 * graph.ne G = 0 \<longleftrightarrow> graph_is_complete G"
  by (auto simp: graph_is_complete_def)

lemma digraph_norm_zero_iff:
  "digraph.nv D * (digraph.nv D - 1) - digraph.ne D = 0 \<longleftrightarrow> digraph_is_complete D"
  by (auto simp: digraph_is_complete_def)

lemma graph_add_rand_edge_complete:
  "graph_is_complete G \<Longrightarrow> graph_add_rand_edge fl G cutoff pick
      = Inr ([''error: graph complete, no more edges to add''], PyNone, G)"
  using graph_norm_zero_iff[of G] by (simp add: graph_add_rand_edge_def Let_def)

lemma digraph_add_rand_edge_complete:
  "digraph_is_complete D \<Longrightarrow> digraph_add_rand_edge fl fk D cutoff pick
      = Inr ([''error: graph complete, no more edges to add''], PyNone, D)"
  using digraph_norm_zero_iff[of D] by (simp add: digraph_add_rand_edge_def Let_def)

lemma bind_err_eq_Inr: "bind_err m f = Inr y \<longleftrightarrow> (\<exists>x. m = Inr x \<and> f x = Inr y)"
  by (cases m) simp_all

lemma graph_add_rand_edge_incomplete:
  assumes "\<not> graph_is_complete G" "graph_add_rand_edge fl G cutoff pick = Inr (out, r, G')"
  shows "out = [] \<and> r = PyNone"
  using assms graph_norm_zero_iff[of G]
  by (auto simp: graph_add_rand_edge_def Let_def bind_err_eq_Inr)

lemma digraph_weighted_choice_out:
  "digraph_weighted_choice fl wd c = Inr (out, k)
     \<Longrightarrow> ''error: graph complete, no more edges to add'' \<notin> set out"
  by (auto simp: digraph_weighted_choice_def split: if_splits option.splits)

lemma digraph_add_rand_edge_incomplete:
  assumes "\<not> digraph_is_complete D" "digraph_add_rand_edge fl fk D cutoff pick = Inr (out, r, D')"
  shows "''error: graph complete, no more edges to add'' \<notin> set out \<and> r = PyNone"
  using assms digraph_norm_zero_iff[of D]
  by (auto simp: digraph_add_rand_edge_def Let_def bind_err_eq_Inr
      split: option.splits dest: digraph_weighted_choice_out)

text \<open>
  Claim C6, amended. On a complete graph or digraph \<^verbatim>\<open>add_rand_edge\<close> prints the line
  \<^verbatim>\<open>error: graph complete, no more edges to add\<close>, returns \<^verbatim>\<open>None\<close> and leaves the
  object as it was. On one that is not complete it does not print that line. Whenever it
  returns, on either branch, the value is \<^verbatim>\<open>None\<close>. (\<open>false_key\<close> is explained at
  \<open>digraph_add_rand_edge\<close>; the statement holds for every float arithmetic \<open>fl\<close>.)
\<close>

theorem add_rand_edge_prints_and_returns_None:
  "(graph_is_complete G \<longrightarrow>
      graph_add_rand_edge fl G cutoff pick
        = Inr ([''error: graph complete, no more edges to add''], PyNone, G))
   \<and> (\<not> graph_is_complete G \<longrightarrow>
      ''error: graph complete, no more edges to add''
         \<notin> set (printed (graph_add_rand_edge fl G cutoff pick)))
   \<and> returned (graph_add_rand_edge fl G cutoff pick) \<noteq> Some PyFalse
   \<and> (\<forall>k. returned (graph_add_rand_edge fl G cutoff pick) \<noteq> Some (Key k))
   \<and> (digraph_is_complete D \<longrightarrow>
      digraph_add_rand_edge fl false_key D cutoff pick
        = Inr ([''error: graph complete, no more edges to add''], PyNone, D))
   \<and> (\<not> digraph_is_complete D \<longrightarrow>
      ''error: graph complete, no more edges to add''
         \<notin> set (printed (digraph_add_rand_edge fl false_key D cutoff pick)))
   \<and> returned (digraph_add_rand_edge fl false_key D cutoff pick) \<noteq> Some PyFalse
   \<and> (\<forall>k. returned (digraph_add_rand_edge fl false_key D cutoff pick) \<noteq> Some (Key k))"
proof -
  have g: "out = [] \<and> r = PyNone"
    if "\<not> graph_is_complete G" "graph_add_rand_edge fl G cutoff pick = Inr (out, r, G')" for out r G'
    using that by (rule graph_add_rand_edge_incomplete)
  have d: "''error: graph complete, no more edges to add'' \<notin> set out \<and> r = PyNone"
    if "\<not> digraph_is_complete D" "digraph_add_rand_edge fl false_key D cutoff pick = Inr (out, r, D')"
    for out r D'
    using that by (rule digraph_add_rand_edge_incomplete)
  have g1: "graph_is_complete G \<longrightarrow> graph_add_rand_edge fl G cutoff pick
        = Inr ([''error: graph complete, no more edges to add''], PyNone, G)"
    by (simp add: graph_add_rand_edge_complete)
  have g2: "\<not> graph_is_complete G \<longrightarrow> ''error: graph complete, no more edges to add''
         \<notin> set (printed (graph_add_rand_edge fl G cutoff pick))"
    using g by (cases "graph_add_rand_edge fl G cutoff pick") (auto simp: printed_def)
  have g3: "returned (graph_add_rand_edge fl G cutoff pick) \<noteq> Some PyFalse
      \<and> (\<forall>k. returned (graph_add_rand_edge fl G cutoff pick) \<noteq> Some (Key k))"
    using g graph_add_rand_edge_complete[of G fl cutoff pick]
    by (cases "graph_add_rand_edge fl G cutoff pick"; cases "graph_is_complete G")
       (auto simp: returned_def)
  have d1: "digraph_is_complete D \<longrightarrow> digraph_add_rand_edge fl false_key D cutoff pick
        = Inr ([''error: graph complete, no more edges to add''], PyNone, D)"
    by (simp add: digraph_add_rand_edge_complete)
  have d2: "\<not> digraph_is_complete D \<longrightarrow> ''error: graph complete, no more edges to add''
         \<notin> set (printed (digraph_add_rand_edge fl false_key D cutoff pick))"
    using d by (cases "digraph_add_rand_edge fl false_key D cutoff pick") (auto simp: printed_def)
  have d3: "returned (digraph_add_rand_edge fl false_key D cutoff pick) \<noteq> Some PyFalse
      \<and> (\<forall>k. returned (digraph_add_rand_edge fl false_key D cutoff pick) \<noteq> Some (Key k))"
    using d digraph_add_rand_edge_complete[of D fl false_key cutoff pick]
    by (cases "digraph_add_rand_edge fl false_key D cutoff pick"; cases "digraph_is_complete D")
       (auto simp: returned_def)
  from g1 g2 g3 d1 d2 d3 show ?thesis by blast
qed

lemmas rand_eval = graph_add_rand_edge_def digraph_add_rand_edge_def graph_weighted_choice_def
  digraph_weighted_choice_def random_choice_def dict_item_def map_item_def adj_add_def incr_def
  set_add_def graph_add_edge_def digraph_add_edge_def as_key_def exact_ops_def

lemma ex_graph_incomplete:
  "graph_add_rand_edge exact_ops (graph_init [0, 1::int] []) (1/2) 0
     = Inr ([], PyNone, \<lparr>graph.ve_dict = [(0, [1]), (1, [0])],
                        degs = (map_of [(0, 0), (1, 0)])(0 \<mapsto> 1, 1 \<mapsto> 1), nv = 2, ne = 1\<rparr>)"
  by (simp add: init_eval rand_eval)

text \<open>
  Claim C6 as stated (the call on a complete graph gives a result the caller can tell from
  a successful insertion) fails: on \<^verbatim>\<open>graph([0, 1])\<close> the first call inserts the edge
  and returns \<^verbatim>\<open>None\<close>; the graph is then complete, and the second call returns
  \<^verbatim>\<open>None\<close> as well.
\<close>

theorem add_rand_edge_same_None:
  "returned (graph_add_rand_edge exact_ops (graph_init [0, 1::int] []) (1/2) 0) = Some PyNone
   \<and> graph.ne (object_after (graph_init [0, 1::int] [])
                 (graph_add_rand_edge exact_ops (graph_init [0, 1::int] []) (1/2) 0)) = 1
   \<and> graph_is_complete (object_after (graph_init [0, 1::int] [])
                 (graph_add_rand_edge exact_ops (graph_init [0, 1::int] []) (1/2) 0))
   \<and> returned (graph_add_rand_edge exact_ops (object_after (graph_init [0, 1::int] [])
                 (graph_add_rand_edge exact_ops (graph_init [0, 1::int] []) (1/2) 0)) (1/2) 0) = Some PyNone"
  unfolding ex_graph_incomplete
  by (simp add: returned_def object_after_def graph_is_complete_def graph_add_rand_edge_def)

theorem add_rand_edge_prints_and_returns_None_witness:
  "graph_is_complete (graph_init [0::int] [])
   \<and> graph_add_rand_edge exact_ops (graph_init [0::int] []) (1/2) 0
        = Inr ([''error: graph complete, no more edges to add''], PyNone, graph_init [0::int] [])
   \<and> \<not> graph_is_complete (graph_init [0, 1::int] [])
   \<and> ''error: graph complete, no more edges to add''
         \<notin> set (printed (graph_add_rand_edge exact_ops (graph_init [0, 1::int] []) (1/2) 0))
   \<and> digraph_is_complete (digraph_init [0::int] [])
   \<and> digraph_add_rand_edge exact_ops None (digraph_init [0::int] []) (1/2) 0
        = Inr ([''error: graph complete, no more edges to add''], PyNone, digraph_init [0::int] [])
   \<and> \<not> digraph_is_complete (digraph_init [0, 1::int] [])
   \<and> ''error: graph complete, no more edges to add''
         \<notin> set (printed (digraph_add_rand_edge exact_ops None (digraph_init [0, 1::int] []) (1/2) 0))"
proof -
  have c: "graph_is_complete (graph_init [0::int] [])" "digraph_is_complete (digraph_init [0::int] [])"
    by (simp_all add: graph_is_complete_def digraph_is_complete_def init_eval)
  have i: "\<not> graph_is_complete (graph_init [0, 1::int] [])"
    "\<not> digraph_is_complete (digraph_init [0, 1::int] [])"
    by (simp_all add: graph_is_complete_def digraph_is_complete_def init_eval)
  from add_rand_edge_prints_and_returns_None
     [of "graph_init [0::int] []" exact_ops "1/2" 0 "digraph_init [0::int] []" None] c
  have 1: "graph_add_rand_edge exact_ops (graph_init [0::int] []) (1/2) 0
        = Inr ([''error: graph complete, no more edges to add''], PyNone, graph_init [0::int] [])"
    "digraph_add_rand_edge exact_ops None (digraph_init [0::int] []) (1/2) 0
        = Inr ([''error: graph complete, no more edges to add''], PyNone, digraph_init [0::int] [])"
    by blast+
  from add_rand_edge_prints_and_returns_None
     [of "graph_init [0, 1::int] []" exact_ops "1/2" 0 "digraph_init [0, 1::int] []" None] i
  have 2: "''error: graph complete, no more edges to add''
         \<notin> set (printed (graph_add_rand_edge exact_ops (graph_init [0, 1::int] []) (1/2) 0))"
    "''error: graph complete, no more edges to add''
         \<notin> set (printed (digraph_add_rand_edge exact_ops None (digraph_init [0, 1::int] []) (1/2) 0))"
    by blast+
  from c i 1 2 show ?thesis by blast
qed

section \<open>C8: the vertex drawn by the sampler\<close>

lemma ex_two_edges:
  "graph_add_edges (graph_init [0, 1, 2::int] []) [(0, 1), (0, 2)]
     = Inr \<lparr>graph.ve_dict = [(0, [1, 2]), (1, [0]), (2, [0])],
            degs = (map_of [(0, 0), (1, 0), (2, 0)])(0 \<mapsto> 2, 1 \<mapsto> 1, 2 \<mapsto> 1), nv = 3, ne = 2\<rparr>"
  by (simp add: init_eval rand_eval fun_upd_twist)

text \<open>
  Claim C8 (the drawn vertex always has positive weight, so the choice of its partner
  cannot fail). On the path 1 - 0 - 2, built by \<^verbatim>\<open>graph([0, 1, 2])\<close>,
  \<^verbatim>\<open>add_edge(0, 1)\<close>, \<^verbatim>\<open>add_edge(0, 2)\<close>, the graph is not complete and the weights
  are the floats 0, 1/2, 1/2, the exact quotients 0/2 and 1/2. With the draw 0.0 the test \<^verbatim>\<open>threshold + weight >= cutoff\<close> holds
  at the first key, vertex 0 of weight 0; no vertex is left for it and
  \<^verbatim>\<open>random.choice\<close> raises IndexError, whatever it would pick.
\<close>

theorem add_rand_edge_picks_saturated_vertex:
  "graph_weighted_choice exact_ops [(0::int, 0), (1, 1/2), (2, 1/2)] 0 = Inr 0
   \<and> bind_err (graph_add_edges (graph_init [0, 1, 2::int] []) [(0, 1), (0, 2)])
        (\<lambda>G. Inr (graph_is_complete G)) = Inr False
   \<and> bind_err (graph_add_edges (graph_init [0, 1, 2::int] []) [(0, 1), (0, 2)])
        (\<lambda>G. graph_add_rand_edge exact_ops G 0 pick) = Inl IndexError"
  unfolding ex_two_edges
  by (simp add: graph_is_complete_def rand_eval py_dict_def keys_def)

section \<open>C3 and C10: the timestamps of depth-first search\<close>

























lemma graph_init_nv:
  "distinct vs \<Longrightarrow> graph.nv (graph_init vs E) = int (card (set (keys (graph.ve_dict (graph_init vs E)))))"
  by (simp add: graph_init_def graph_init_seq_def Let_def py_dict_keys distinct_card)

lemma digraph_init_nv:
  "distinct vs \<Longrightarrow> digraph.nv (digraph_init vs E) = int (card (set (keys (digraph.ve_dict (digraph_init vs E)))))"
  by (simp add: digraph_init_def Let_def py_dict_keys distinct_card)






text \<open>The path graph is the object that the constructor and \<^verbatim>\<open>add_edge\<close> build, here
  for three vertices.\<close>

lemma path_graph_built:
  "graph_add_edges (graph_init [0, 1, 2::nat] []) [(0, 1), (1, 2)] = Inr (path_graph 3)"
  apply (simp add: init_eval rand_eval path_graph_def path_ve_def path_nbrs_def upt_rec)
  apply (rule ext)
  apply (auto simp: less_Suc_eq numeral_3_eq_3 path_nbrs_def)
  done










section \<open>C4: the spanning forest\<close>

lemma nbrs_no_key: "v \<notin> set (keys ve) \<Longrightarrow> nbrs ve v = []"
  using map_of_None_keys[of ve v] by (simp add: nbrs_def dict_get_def)

lemma edges_of_iff: "(v, w) \<in> edges_of ve \<longleftrightarrow> w \<in> set (nbrs ve v)"
  by (simp add: edges_of_def)

lemma edges_of_key: "(v, w) \<in> edges_of ve \<Longrightarrow> v \<in> set (keys ve)"
  by (cases "v \<in> set (keys ve)") (auto simp: edges_of_def nbrs_no_key)



lemma sym_graph_edges: "sym_graph ve \<Longrightarrow> (v, w) \<in> edges_of ve \<Longrightarrow> (w, v) \<in> edges_of ve"
  using edges_of_key[of v w ve] by (auto simp: sym_graph_def edges_of_iff)

lemma sym_graph_closed: "sym_graph ve \<Longrightarrow> map_of ve v = Some us \<Longrightarrow> set us \<subseteq> set (keys ve)"
proof
  fix w assume s: "sym_graph ve" and m: "map_of ve v = Some us" and w: "w \<in> set us"
  from m have "nbrs ve v = us" by (simp add: nbrs_def dict_get_def)
  with w have "(v, w) \<in> edges_of ve" by (simp add: edges_of_iff)
  with s have "(w, v) \<in> edges_of ve" by (rule sym_graph_edges)
  then show "w \<in> set (keys ve)" by (rule edges_of_key)
qed


































end
